theory Spec2Isabelle
  imports Complex_Main "HOL-Library.AList"
begin

section \<open>Values of the Python program\<close>

text \<open>
  \<^verbatim>\<open>bot.py\<close> places one order on the Binance Futures testnet. Its quantities and prices
  are Python floats. The program only compares them with zero, tests their truth value
  and passes them on unchanged, so a float is modelled by its exact value: a rational
  number for a finite float (the two zeros are one value), or one of the three special
  values that \<^verbatim>\<open>float()\<close> also accepts on the command line.
\<close>

datatype pyfloat = Finite rat | PosInf | NegInf | NaN

text \<open>\<^verbatim>\<open>x <= 0\<close> on floats: every comparison with NaN is False.\<close>

fun le_zero :: "pyfloat \<Rightarrow> bool" where
  "le_zero (Finite r) = (r \<le> 0)"
| "le_zero NegInf = True"
| "le_zero PosInf = False"
| "le_zero NaN = False"

text \<open>\<^verbatim>\<open>bool(x)\<close> on floats: only zero is falsy.\<close>

fun truthy :: "pyfloat \<Rightarrow> bool" where
  "truthy (Finite r) = (r \<noteq> 0)"
| "truthy _ = True"

datatype pyvalue = VStr string | VFloat pyfloat | VInt int

text \<open>
  A dictionary is an association list in insertion order; \<^verbatim>\<open>d[k] = v\<close> is
  \<^const>\<open>AList.update\<close> and \<^verbatim>\<open>d.get(k)\<close> is \<^const>\<open>map_of\<close>.
\<close>

type_synonym pydict = "(string \<times> pyvalue) list"

text \<open>
  \<^verbatim>\<open>str.upper()\<close> on ASCII text: the letters a to z (codes 97 to 122) move to A to Z,
  every other character stays. Text beyond ASCII, where Python follows Unicode, is
  outside the model.
\<close>

definition is_lower :: "char \<Rightarrow> bool" where
  "is_lower c = (97 \<le> (of_char c :: nat) \<and> (of_char c :: nat) \<le> 122)"

definition upper_char :: "char \<Rightarrow> char" where
  "upper_char c = (if is_lower c then char_of ((of_char c :: nat) - 32) else c)"

definition upper :: "string \<Rightarrow> string" where
  "upper s = map upper_char s"

text \<open>The texts on which \<^const>\<open>upper\<close> is Python's \<^verbatim>\<open>str.upper()\<close>: every code below 128.\<close>

definition is_ascii :: "string \<Rightarrow> bool" where
  "is_ascii s = list_all (\<lambda>ch. (of_char ch :: nat) < 128) s"

subsection \<open>Constants of \<^verbatim>\<open>binance.enums\<close>\<close>

definition TIME_IN_FORCE_GTC :: string where
  \<comment> \<open>Modelled from the spec: \<^verbatim>\<open>binance.enums\<close> is imported by \<^verbatim>\<open>bot.py\<close> and is not part of
      the sources; the spec names the flag GTC.\<close>
  "TIME_IN_FORCE_GTC = ''GTC''"

definition ORDER_TYPE_LIMIT :: string where
  \<comment> \<open>Modelled from the spec: \<^verbatim>\<open>binance.enums\<close> is imported by \<^verbatim>\<open>bot.py\<close> and is not part of
      the sources; the spec names the order type LIMIT.\<close>
  "ORDER_TYPE_LIMIT = ''LIMIT''"

section \<open>Exceptions, the exchange client and the trace of effects\<close>

text \<open>
  The exceptions are the instances of \<^verbatim>\<open>Exception\<close> that a call into the exchange library
  can raise: the two classes \<^verbatim>\<open>place_order\<close> names, each with its code and message, and
  any other class, with its text.
\<close>

datatype exc =
    BinanceAPIException int string
  | BinanceOrderException int string
  | OtherException string

text \<open>
  The exchange client is outside the program. A client object is modelled by what its two
  calls do: \<^verbatim>\<open>futures_ping()\<close> returns or raises, \<^verbatim>\<open>futures_create_order(**params)\<close>
  returns a response dictionary or raises.
\<close>

record client =
  futures_ping :: "exc option"
  futures_create_order :: "pydict \<Rightarrow> exc + pydict"

text \<open>
  The world the process runs in: the environment after \<^verbatim>\<open>load_dotenv()\<close>, and the
  constructor \<^verbatim>\<open>Client(api_key, api_secret, tld, testnet)\<close>, which returns a client or raises.
\<close>

record world =
  getenv :: "string \<Rightarrow> string option"
  Client :: "string \<Rightarrow> string \<Rightarrow> string \<Rightarrow> bool \<Rightarrow> exc + client"

text \<open>
  Everything the program does besides computing is recorded as a trace of events, in
  order. A message is kept as the pieces of its f-string, so that no float or dictionary
  has to be printed.
\<close>

datatype level = DEBUG | INFO | ERROR | CRITICAL

datatype frag =
    S string
  | F pyfloat
  | N int
  | V "pyvalue option"
  | D pydict
  | X exc

datatype event =
    Log level "frag list"
  | Print "frag list"
  | ClientCall string string string bool
  | FuturesPing
  | FuturesCreateOrder pydict

text \<open>The exchange order-creation calls of a trace, and all the events that touch the exchange.\<close>

fun issued_orders :: "event list \<Rightarrow> pydict list" where
  "issued_orders [] = []"
| "issued_orders (FuturesCreateOrder ps # evs) = ps # issued_orders evs"
| "issued_orders (_ # evs) = issued_orders evs"

fun is_exchange_event :: "event \<Rightarrow> bool" where
  "is_exchange_event (ClientCall _ _ _ _) = True"
| "is_exchange_event FuturesPing = True"
| "is_exchange_event (FuturesCreateOrder _) = True"
| "is_exchange_event _ = False"

definition exchange_events :: "event list \<Rightarrow> event list" where
  "exchange_events evs = filter is_exchange_event evs"

section \<open>\<^verbatim>\<open>BasicBot\<close>\<close>

record BasicBot =
  bot_client :: client

text \<open>\<^verbatim>\<open>BasicBot.__init__\<close>: construct the client, ping, log and re-raise any failure.\<close>

definition BasicBot_init :: "world \<Rightarrow> string \<Rightarrow> string \<Rightarrow> bool \<Rightarrow> event list \<times> (exc + BasicBot)" where
  "BasicBot_init w api_key api_secret testnet =
     (let ev0 = [Log INFO [S ''Initializing BasicBot...''],
                 ClientCall api_key api_secret ''com'' testnet]
      in case Client w api_key api_secret ''com'' testnet of
           Inl e \<Rightarrow> (ev0 @ [Log ERROR [S ''Error initializing Binance Client: '', X e]], Inl e)
         | Inr cl \<Rightarrow>
             (case futures_ping cl of
                Some e \<Rightarrow>
                  (ev0 @ [FuturesPing, Log ERROR [S ''Error initializing Binance Client: '', X e]],
                   Inl e)
              | None \<Rightarrow>
                  (ev0 @ [FuturesPing,
                          Log INFO [S ''Binance Client initialized successfully and connected to Testnet.'']],
                   Inr \<lparr>bot_client = cl\<rparr>)))"

text \<open>
  \<^verbatim>\<open>BasicBot.place_order\<close>. The result is \<open>Inl e\<close> when the exception \<open>e\<close> leaves the
  method, \<open>Inr None\<close> when it returns \<^verbatim>\<open>None\<close> and \<open>Inr (Some r)\<close> when it returns the
  response.
\<close>

definition place_order ::
  "BasicBot \<Rightarrow> string \<Rightarrow> string \<Rightarrow> string \<Rightarrow> pyfloat \<Rightarrow> pyfloat option
     \<Rightarrow> event list \<times> (exc + pydict option)" where
  "place_order self symbol side order_type quantity price =
     (let ev0 = [Log INFO ([S ''Attempting order: Side='', S side, S '', Type='', S order_type,
                            S '', Symbol='', S symbol, S '', Qty='', F quantity]
                           @ (case price of
                                None \<Rightarrow> []
                              | Some p \<Rightarrow> if truthy p then [S '', Price='', F p] else []))];
          params = [(''symbol'', VStr symbol),
                    (''side'', VStr side),
                    (''type'', VStr order_type),
                    (''quantity'', VFloat quantity),
                    (''timeInForce'', VStr TIME_IN_FORCE_GTC)];
          attempt = (\<lambda>params.
            case futures_create_order (bot_client self) params of
              Inr response \<Rightarrow>
                (ev0 @ [FuturesCreateOrder params,
                        Log INFO [S ''Order placed successfully. Status: '',
                                  V (map_of response ''status'')],
                        Log DEBUG [S ''API Response (Success): '', D response],
                        Print [S (CHR 0x0A # ''Order Placed Successfully:'')],
                        Print [S ''   Order ID: '', V (map_of response ''orderId'')],
                        Print [S ''   Status: '', V (map_of response ''status'')],
                        Print [S ''   Type: '', V (map_of response ''type'')]],
                 Inr (Some response))
            | Inl (BinanceAPIException code message) \<Rightarrow>
                (ev0 @ [FuturesCreateOrder params,
                        Log ERROR [S ''Binance API Error (Code '', N code, S ''): '', S message],
                        Print [S (CHR 0x0A # ''Order Failed (API Error): ''), S message]],
                 Inr None)
            | Inl (BinanceOrderException code message) \<Rightarrow>
                (ev0 @ [FuturesCreateOrder params,
                        Log ERROR [S ''Binance Order Error (Code '', N code, S ''): '', S message],
                        Print [S (CHR 0x0A # '' Order Failed (Order Error): ''), S message]],
                 Inr None)
            | Inl (OtherException text) \<Rightarrow>
                (ev0 @ [FuturesCreateOrder params], Inl (OtherException text)))
      in if order_type = ORDER_TYPE_LIMIT then
           (case price of
              None \<Rightarrow>
                (ev0 @ [Log ERROR [S ''LIMIT order requires a 'price' parameter.''],
                        Print [S ''Order Failed: LIMIT order requires a target price.'']],
                 Inr None)
            | Some p \<Rightarrow> attempt (AList.update ''price'' (VFloat p) params))
         else attempt params)"

section \<open>The command line\<close>

text \<open>
  \<^verbatim>\<open>argparse\<close> is Python's library, not the program's. The model starts where the library
  has split the command line into its options: each option is absent or has its text,
  and for the two options declared \<^verbatim>\<open>type=float\<close> the text has been given to
  \<^verbatim>\<open>float()\<close>, which raised \<^verbatim>\<open>ValueError\<close> or returned a float. The help flag and
  options the parser does not know are outside the model.
\<close>

datatype float_arg = NotANumber | Num pyfloat

record cli =
  arg_symbol :: "string option"
  arg_side :: "string option"
  arg_type :: "string option"
  arg_qty :: "float_arg option"
  arg_price :: "float_arg option"

record namespace =
  args_symbol :: string
  args_side :: string
  args_type :: string
  args_qty :: pyfloat
  args_price :: "pyfloat option"

text \<open>
  \<^verbatim>\<open>parser.parse_args()\<close> with the five \<^verbatim>\<open>add_argument\<close> declarations of the source:
  \<^verbatim>\<open>--symbol\<close>, \<^verbatim>\<open>--side\<close>, \<^verbatim>\<open>--type\<close> and \<^verbatim>\<open>--qty\<close> are required, \<^verbatim>\<open>--side\<close> and
  \<^verbatim>\<open>--type\<close> must be one of their \<^verbatim>\<open>choices\<close> (compared as they are written), and
  \<^verbatim>\<open>--qty\<close> and \<^verbatim>\<open>--price\<close> must convert to a float. On any violation the library
  prints the usage and calls \<^verbatim>\<open>parser.error\<close>, which ends the process with status 2:
  the result \<open>Inl 2\<close>.
\<close>

definition parse_args :: "cli \<Rightarrow> int + namespace" where
  "parse_args c =
     (case arg_symbol c of
        None \<Rightarrow> Inl 2
      | Some sy \<Rightarrow>
     (case arg_side c of
        None \<Rightarrow> Inl 2
      | Some sd \<Rightarrow>
     (if sd \<notin> set [''BUY'', ''SELL''] then Inl 2 else
     (case arg_type c of
        None \<Rightarrow> Inl 2
      | Some ty \<Rightarrow>
     (if ty \<notin> set [''MARKET'', ''LIMIT''] then Inl 2 else
     (case arg_qty c of
        None \<Rightarrow> Inl 2
      | Some NotANumber \<Rightarrow> Inl 2
      | Some (Num q) \<Rightarrow>
     (case arg_price c of
        Some NotANumber \<Rightarrow> Inl 2
      | None \<Rightarrow>
          Inr \<lparr>args_symbol = sy, args_side = sd, args_type = ty, args_qty = q,
               args_price = None\<rparr>
      | Some (Num p) \<Rightarrow>
          Inr \<lparr>args_symbol = sy, args_side = sd, args_type = ty, args_qty = q,
               args_price = Some p\<rparr>)))))))"

text \<open>
  \<^verbatim>\<open>validate_and_parse_args\<close>: \<open>Inl n\<close> is \<^verbatim>\<open>sys.exit(n)\<close>, \<open>Inr a\<close> the returned namespace.
\<close>

definition validate_and_parse_args :: "cli \<Rightarrow> event list \<times> (int + namespace)" where
  "validate_and_parse_args c =
     (case parse_args c of
        Inl n \<Rightarrow> ([], Inl n)
      | Inr a \<Rightarrow>
          if le_zero (args_qty a) then
            ([Log ERROR [S ''Quantity must be greater than zero.'']], Inl 1)
          else if args_type a = ''LIMIT''
                  \<and> (case args_price a of None \<Rightarrow> True | Some p \<Rightarrow> le_zero p) then
            ([Log ERROR [S ''LIMIT orders require a positive --price.'']], Inl 1)
          else ([], Inr a))"

section \<open>\<^verbatim>\<open>main\<close>\<close>

text \<open>
  \<^verbatim>\<open>main\<close> returns the trace and the exit status of the process: the argument of
  \<^verbatim>\<open>sys.exit\<close>, or 0 when \<^verbatim>\<open>main\<close> returns.
\<close>

definition main :: "world \<Rightarrow> cli \<Rightarrow> event list \<times> int" where
  "main w c =
     (case validate_and_parse_args c of
        (ev1, Inl n) \<Rightarrow> (ev1, n)
      | (ev1, Inr a) \<Rightarrow>
          (case (getenv w ''API_KEY'', getenv w ''API_SECRET'') of
             (Some API_KEY, Some API_SECRET) \<Rightarrow>
               if API_KEY = [] \<or> API_SECRET = [] then
                 (ev1 @ [Log ERROR [S ''API keys not loaded. Check your .env file.''],
                         Print [S ''Error: API_KEY or API_SECRET not found.'']], 1)
               else
                 (case BasicBot_init w API_KEY API_SECRET True of
                    (ev2, Inl e) \<Rightarrow>
                      (ev1 @ ev2 @ [Log CRITICAL [S ''Main execution failed: '', X e]], 1)
                  | (ev2, Inr b) \<Rightarrow>
                      (case place_order b (upper (args_symbol a)) (upper (args_side a))
                              (upper (args_type a)) (args_qty a) (args_price a) of
                         (ev3, Inl e) \<Rightarrow>
                           (ev1 @ ev2 @ ev3 @ [Log CRITICAL [S ''Main execution failed: '', X e]], 1)
                       | (ev3, Inr r) \<Rightarrow> (ev1 @ ev2 @ ev3, 0)))
           | _ \<Rightarrow>
               (ev1 @ [Log ERROR [S ''API keys not loaded. Check your .env file.''],
                       Print [S ''Error: API_KEY or API_SECRET not found.'']], 1)))"

section \<open>Concrete runs\<close>

text \<open>
  A world in which both credentials are set and the constructor returns the given client,
  a client whose ping succeeds and whose order call does the given thing, and the
  response of the spec's example.
\<close>

definition example_response :: pydict where
  "example_response =
     [(''orderId'', VInt 12345), (''status'', VStr ''FILLED''), (''type'', VStr ''MARKET'')]"

definition client_returning :: "exc + pydict \<Rightarrow> client" where
  "client_returning r = \<lparr>futures_ping = None, futures_create_order = (\<lambda>params. r)\<rparr>"

definition world_with :: "client \<Rightarrow> world" where
  "world_with cl =
     \<lparr>getenv = (\<lambda>name. if name = ''API_KEY'' then Some ''k3y''
                       else if name = ''API_SECRET'' then Some ''s3cret'' else None),
      Client = (\<lambda>api_key api_secret tld testnet. Inr cl)\<rparr>"

definition cli_of ::
  "string \<Rightarrow> string \<Rightarrow> string \<Rightarrow> pyfloat \<Rightarrow> pyfloat option \<Rightarrow> cli" where
  "cli_of sy sd ty q pr =
     \<lparr>arg_symbol = Some sy, arg_side = Some sd, arg_type = Some ty, arg_qty = Some (Num q),
      arg_price = map_option Num pr\<rparr>"

section \<open>Facts about the model\<close>

lemma upper_choices:
  "upper ''BUY'' = ''BUY''" "upper ''SELL'' = ''SELL''"
  "upper ''MARKET'' = ''MARKET''" "upper ''LIMIT'' = ''LIMIT''"
  by (simp_all add: upper_def upper_char_def is_lower_def)

lemma upper_btcusdt: "upper ''btcusdt'' = ''BTCUSDT''"
  by (simp add: upper_def upper_char_def is_lower_def char_of_def bit_0)

lemma not_lower_upper_char: "\<not> is_lower (upper_char ch)"
  by (auto simp add: upper_char_def is_lower_def)

lemma issued_orders_append: "issued_orders (xs @ ys) = issued_orders xs @ issued_orders ys"
  by (induction xs rule: issued_orders.induct) simp_all

text \<open>The order calls of \<^const>\<open>place_order\<close>, whatever the exchange answers.\<close>

lemma place_order_issued:
  "issued_orders (fst (place_order self symbol side order_type quantity price)) =
     (if order_type = ''LIMIT'' then
        (case price of
           None \<Rightarrow> []
         | Some p \<Rightarrow>
             [[(''symbol'', VStr symbol), (''side'', VStr side), (''type'', VStr order_type),
               (''quantity'', VFloat quantity), (''timeInForce'', VStr ''GTC''),
               (''price'', VFloat p)]])
      else [[(''symbol'', VStr symbol), (''side'', VStr side), (''type'', VStr order_type),
             (''quantity'', VFloat quantity), (''timeInForce'', VStr ''GTC'')]])"
  by (simp add: place_order_def ORDER_TYPE_LIMIT_def TIME_IN_FORCE_GTC_def Let_def
        split: sum.splits exc.splits option.splits)

lemma BasicBot_init_issued: "issued_orders (fst (BasicBot_init w k s t)) = []"
  by (simp add: BasicBot_init_def Let_def split: sum.splits option.splits)

text \<open>What a namespace returned by the parser, and by the validation, is known to satisfy.\<close>

lemma parse_args_Inr:
  assumes "parse_args c = Inr a"
  shows "arg_symbol c = Some (args_symbol a)"
    and "arg_side c = Some (args_side a)"
    and "args_side a = ''BUY'' \<or> args_side a = ''SELL''"
    and "arg_type c = Some (args_type a)"
    and "args_type a = ''MARKET'' \<or> args_type a = ''LIMIT''"
    and "arg_qty c = Some (Num (args_qty a))"
    and "arg_price c = map_option Num (args_price a)"
  using assms
  by (auto simp add: parse_args_def split: option.splits if_splits float_arg.splits)

lemma validate_Inr:
  assumes "validate_and_parse_args c = (evs, Inr a)"
  shows "evs = []"
    and "parse_args c = Inr a"
    and "\<not> le_zero (args_qty a)"
    and "args_type a = ''LIMIT'' \<Longrightarrow> \<exists>p. args_price a = Some p \<and> \<not> le_zero p"
  using assms
  by (auto simp add: validate_and_parse_args_def split: sum.splits if_splits option.splits)

text \<open>An exit of the validation is the exit of the process.\<close>

lemma validate_exit_main: "validate_and_parse_args c = (evs, Inl n) \<Longrightarrow> main w c = (evs, n)"
  by (simp add: main_def)

text \<open>
  The runs of \<^const>\<open>main\<close> that reach the order: credentials set, client built, ping
  answered. The exit status is 1 when an exception leaves \<^const>\<open>place_order\<close> and 0 when
  it returns.
\<close>

lemma main_reaches_order:
  assumes "validate_and_parse_args c = (evs, Inr a)"
      and "getenv w ''API_KEY'' = Some k" and "k \<noteq> []"
      and "getenv w ''API_SECRET'' = Some s" and "s \<noteq> []"
      and "Client w k s ''com'' True = Inr cl" and "futures_ping cl = None"
  shows "snd (main w c) =
           (case snd (place_order \<lparr>bot_client = cl\<rparr> (upper (args_symbol a)) (upper (args_side a))
                        (upper (args_type a)) (args_qty a) (args_price a)) of
              Inl e \<Rightarrow> 1 | Inr r \<Rightarrow> 0)"
  using assms
  by (simp add: main_def BasicBot_init_def Let_def split: prod.splits sum.splits)

text \<open>A rejection by the parser is the exit of the process, with status 2 and an empty trace.\<close>

lemma parse_args_Inl: "parse_args c = Inl n \<Longrightarrow> n = 2"
  by (auto simp add: parse_args_def split: option.splits if_splits float_arg.splits)

lemma parser_exit_main: "parse_args c = Inl n \<Longrightarrow> main w c = ([], 2)"
proof -
  assume p: "parse_args c = Inl n"
  then have "n = 2" by (rule parse_args_Inl)
  with p have "validate_and_parse_args c = ([], Inl 2)"
    by (simp add: validate_and_parse_args_def)
  then show ?thesis by (rule validate_exit_main)
qed

text \<open>Every order call in a run of \<^const>\<open>main\<close> is one of \<^const>\<open>place_order\<close>, on the parsed namespace.\<close>

lemma validate_issued: "issued_orders (fst (validate_and_parse_args c)) = []"
  by (simp add: validate_and_parse_args_def split: sum.splits)

lemma main_issued:
  assumes "ps \<in> set (issued_orders (fst (main w c)))"
  shows "\<exists>a b. parse_args c = Inr a
           \<and> ps \<in> set (issued_orders (fst (place_order b (upper (args_symbol a))
                         (upper (args_side a)) (upper (args_type a)) (args_qty a) (args_price a))))"
proof (cases "validate_and_parse_args c")
  case (Pair ev1 r)
  show ?thesis
  proof (cases r)
    case (Inl n)
    with Pair have "main w c = (ev1, n)" by (simp add: validate_exit_main)
    moreover have "issued_orders ev1 = []" using validate_issued [of c] Pair by simp
    ultimately show ?thesis using assms by simp
  next
    case (Inr a)
    with Pair have v: "validate_and_parse_args c = (ev1, Inr a)" by simp
    have e: "ev1 = []" and p: "parse_args c = Inr a"
      using validate_Inr(1,2) [OF v] by simp_all
    have "\<exists>b. ps \<in> set (issued_orders (fst (place_order b (upper (args_symbol a))
                         (upper (args_side a)) (upper (args_type a)) (args_qty a) (args_price a))))"
      using assms
      by (auto simp add: main_def v e issued_orders_append BasicBot_init_issued split_beta
            split: option.splits if_splits sum.splits)
    with p show ?thesis by blast
  qed
qed

section \<open>The wire parameters\<close>

text \<open>
  C2. A validated request is the namespace that \<^const>\<open>validate_and_parse_args\<close> returns,
  passed to \<^const>\<open>place_order\<close> the way \<^const>\<open>main\<close> passes it. For every such request
  exactly one order call is made, and its parameters contain \<^verbatim>\<open>timeInForce\<close> with the
  value GTC, for a MARKET order as well. For a LIMIT request the price \<open>p\<close> is present
  and the parameters are exactly the six fields symbol, side, type LIMIT, quantity,
  timeInForce GTC and price \<open>p\<close>; for a MARKET request they are exactly the first five.
\<close>

theorem wire_parameters_of_validated_request:
  assumes "validate_and_parse_args c = (evs, Inr a)"
  shows "\<exists>ps. issued_orders (fst (place_order self (upper (args_symbol a)) (upper (args_side a))
                                   (upper (args_type a)) (args_qty a) (args_price a))) = [ps]
           \<and> map_of ps ''timeInForce'' = Some (VStr ''GTC'')
           \<and> (args_type a = ''MARKET'' \<longrightarrow>
                ps = [(''symbol'', VStr (upper (args_symbol a))),
                      (''side'', VStr (upper (args_side a))),
                      (''type'', VStr ''MARKET''),
                      (''quantity'', VFloat (args_qty a)),
                      (''timeInForce'', VStr ''GTC'')])
           \<and> (args_type a = ''LIMIT'' \<longrightarrow>
                (\<exists>p. args_price a = Some p
                   \<and> ps = [(''symbol'', VStr (upper (args_symbol a))),
                           (''side'', VStr (upper (args_side a))),
                           (''type'', VStr ''LIMIT''),
                           (''quantity'', VFloat (args_qty a)),
                           (''timeInForce'', VStr ''GTC''),
                           (''price'', VFloat p)]))"
proof -
  have ty: "args_type a = ''MARKET'' \<or> args_type a = ''LIMIT''"
    using parse_args_Inr(5) validate_Inr(2) [OF assms] by blast
  show ?thesis
  proof (cases "args_type a = ''LIMIT''")
    case True
    then obtain p where "args_price a = Some p"
      using validate_Inr(4) [OF assms] by blast
    with True show ?thesis
      by (simp add: place_order_issued upper_choices)
  next
    case False
    with ty have "args_type a = ''MARKET''" by simp
    then show ?thesis
      by (simp add: place_order_issued upper_choices)
  qed
qed

text \<open>The spec's example: a LIMIT order with price 50000 and quantity 0.01.\<close>

theorem wire_parameters_of_validated_request_witness:
  "validate_and_parse_args (cli_of ''btcusdt'' ''BUY'' ''LIMIT'' (Finite 0.01) (Some (Finite 50000)))
     = ([], Inr \<lparr>args_symbol = ''btcusdt'', args_side = ''BUY'', args_type = ''LIMIT'',
                 args_qty = Finite 0.01, args_price = Some (Finite 50000)\<rparr>)
   \<and> issued_orders (fst (place_order \<lparr>bot_client = client_returning (Inr example_response)\<rparr>
                            ''BTCUSDT'' ''BUY'' ''LIMIT'' (Finite 0.01) (Some (Finite 50000))))
     = [[(''symbol'', VStr ''BTCUSDT''), (''side'', VStr ''BUY''), (''type'', VStr ''LIMIT''),
         (''quantity'', VFloat (Finite 0.01)), (''timeInForce'', VStr ''GTC''),
         (''price'', VFloat (Finite 50000))]]"
proof -
  have v: "validate_and_parse_args
             (cli_of ''btcusdt'' ''BUY'' ''LIMIT'' (Finite 0.01) (Some (Finite 50000)))
           = ([], Inr \<lparr>args_symbol = ''btcusdt'', args_side = ''BUY'', args_type = ''LIMIT'',
                       args_qty = Finite 0.01, args_price = Some (Finite 50000)\<rparr>)"
    by (simp add: validate_and_parse_args_def parse_args_def cli_of_def)
  show ?thesis
    using v wire_parameters_of_validated_request
              [OF v, of "\<lparr>bot_client = client_returning (Inr example_response)\<rparr>"]
    by (auto simp add: upper_btcusdt upper_choices)
qed

text \<open>
  C3. For every call of \<^const>\<open>place_order\<close> with order type MARKET, with any price or
  none, exactly one order call is made and its parameters are the five fields symbol,
  side, type, quantity and timeInForce: there is no price field.
\<close>

theorem market_order_has_no_price:
  "\<exists>ps. issued_orders (fst (place_order self symbol side ''MARKET'' quantity price)) = [ps]
        \<and> ps = [(''symbol'', VStr symbol), (''side'', VStr side), (''type'', VStr ''MARKET''),
                 (''quantity'', VFloat quantity), (''timeInForce'', VStr ''GTC'')]
        \<and> map_of ps ''price'' = None"
  by (simp add: place_order_issued)

section \<open>The defensive check of \<^verbatim>\<open>place_order\<close>\<close>

text \<open>
  C8. Called with order type LIMIT and no price, \<^const>\<open>place_order\<close> logs the attempt, logs
  an error, prints the failure message and returns \<^verbatim>\<open>None\<close>; the trace holds no order
  call.
\<close>

theorem place_order_limit_without_price:
  "place_order self symbol side ''LIMIT'' quantity None =
     ([Log INFO [S ''Attempting order: Side='', S side, S '', Type='', S ''LIMIT'',
                 S '', Symbol='', S symbol, S '', Qty='', F quantity],
       Log ERROR [S ''LIMIT order requires a 'price' parameter.''],
       Print [S ''Order Failed: LIMIT order requires a target price.'']],
      Inr None)
   \<and> issued_orders (fst (place_order self symbol side ''LIMIT'' quantity None)) = []"
  by (simp add: place_order_def ORDER_TYPE_LIMIT_def Let_def)

text \<open>
  C10. Called with order type LIMIT and a price \<open>p \<le> 0\<close>, \<^const>\<open>place_order\<close> does not take
  the defensive branch: neither its error log nor its failure message is in the trace,
  and the order call is made with \<^verbatim>\<open>price\<close> equal to \<open>p\<close>.
\<close>

theorem nonpositive_limit_price_is_submitted:
  assumes "le_zero p"
  shows "issued_orders (fst (place_order self symbol side ''LIMIT'' quantity (Some p))) =
           [[(''symbol'', VStr symbol), (''side'', VStr side), (''type'', VStr ''LIMIT''),
             (''quantity'', VFloat quantity), (''timeInForce'', VStr ''GTC''),
             (''price'', VFloat p)]]
         \<and> Log ERROR [S ''LIMIT order requires a 'price' parameter.'']
             \<notin> set (fst (place_order self symbol side ''LIMIT'' quantity (Some p)))
         \<and> Print [S ''Order Failed: LIMIT order requires a target price.'']
             \<notin> set (fst (place_order self symbol side ''LIMIT'' quantity (Some p)))"
  by (simp add: place_order_def ORDER_TYPE_LIMIT_def TIME_IN_FORCE_GTC_def Let_def
        split: sum.splits exc.splits)

theorem nonpositive_limit_price_is_submitted_witness:
  "le_zero (Finite (- 5))
   \<and> issued_orders (fst (place_order \<lparr>bot_client = client_returning (Inr example_response)\<rparr>
                            ''BTCUSDT'' ''SELL'' ''LIMIT'' (Finite 1) (Some (Finite (- 5))))) =
       [[(''symbol'', VStr ''BTCUSDT''), (''side'', VStr ''SELL''), (''type'', VStr ''LIMIT''),
         (''quantity'', VFloat (Finite 1)), (''timeInForce'', VStr ''GTC''),
         (''price'', VFloat (Finite (- 5)))]]"
proof -
  have h: "le_zero (Finite (- 5))" by simp
  show ?thesis
    using h nonpositive_limit_price_is_submitted
              [OF h, of "\<lparr>bot_client = client_returning (Inr example_response)\<rparr>"
                 "''BTCUSDT''" "''SELL''" "Finite 1"]
    by simp
qed

section \<open>Errors of the order call\<close>

text \<open>
  C1. Take a validated request (the namespace returned by \<^const>\<open>validate_and_parse_args\<close>)
  in a run that reaches the order call: both credentials are set and not empty, the
  client is constructed and the ping returns. Let the order call, on the parameters
  \<^const>\<open>place_order\<close> gives it, raise \<open>e\<close>. If \<open>e\<close> is a \<^verbatim>\<open>BinanceAPIException\<close> or a
  \<^verbatim>\<open>BinanceOrderException\<close>, \<^const>\<open>place_order\<close> returns \<^verbatim>\<open>None\<close> and the process exits
  with status 0. If \<open>e\<close> is any other exception, it leaves \<^const>\<open>place_order\<close> and the
  process exits with status 1.
\<close>

theorem exchange_errors_caught_others_propagate:
  assumes "validate_and_parse_args c = (evs, Inr a)"
      and "getenv w ''API_KEY'' = Some k" and "k \<noteq> []"
      and "getenv w ''API_SECRET'' = Some s" and "s \<noteq> []"
      and "Client w k s ''com'' True = Inr cl" and "futures_ping cl = None"
      and "issued_orders (fst (place_order \<lparr>bot_client = cl\<rparr> (upper (args_symbol a))
             (upper (args_side a)) (upper (args_type a)) (args_qty a) (args_price a))) = [ps]"
      and "futures_create_order cl ps = Inl e"
  shows "((\<exists>code message. e = BinanceAPIException code message
                          \<or> e = BinanceOrderException code message) \<longrightarrow>
            snd (place_order \<lparr>bot_client = cl\<rparr> (upper (args_symbol a)) (upper (args_side a))
                   (upper (args_type a)) (args_qty a) (args_price a)) = Inr None
            \<and> snd (main w c) = 0)
       \<and> ((\<exists>text. e = OtherException text) \<longrightarrow>
            snd (place_order \<lparr>bot_client = cl\<rparr> (upper (args_symbol a)) (upper (args_side a))
                   (upper (args_type a)) (args_qty a) (args_price a)) = Inl e
            \<and> snd (main w c) = 1)"
proof -
  let ?po = "place_order \<lparr>bot_client = cl\<rparr> (upper (args_symbol a)) (upper (args_side a))
               (upper (args_type a)) (args_qty a) (args_price a)"
  have m: "snd (main w c) = (case snd ?po of Inl e \<Rightarrow> 1 | Inr r \<Rightarrow> 0)"
    using main_reaches_order [OF assms(1-7)] .
  have r: "snd ?po = (case e of OtherException text \<Rightarrow> Inl e | _ \<Rightarrow> Inr None)"
    using assms(8,9)
    by (auto simp add: place_order_def ORDER_TYPE_LIMIT_def TIME_IN_FORCE_GTC_def Let_def
          split: if_splits option.splits sum.splits exc.splits)
  show ?thesis
    by (auto simp add: m r)
qed

theorem exchange_errors_caught_others_propagate_witness:
  "snd (main (world_with (client_returning
                (Inl (BinanceAPIException (- 1021) ''Timestamp outside recvWindow''))))
          (cli_of ''BTCUSDT'' ''BUY'' ''MARKET'' (Finite 0.01) None)) = 0
   \<and> snd (main (world_with (client_returning (Inl (OtherException ''Connection reset''))))
          (cli_of ''BTCUSDT'' ''BUY'' ''MARKET'' (Finite 0.01) None)) = 1"
proof -
  let ?c = "cli_of ''BTCUSDT'' ''BUY'' ''MARKET'' (Finite 0.01) None"
  let ?a = "\<lparr>args_symbol = ''BTCUSDT'', args_side = ''BUY'', args_type = ''MARKET'',
             args_qty = Finite 0.01, args_price = None\<rparr>"
  let ?ps = "[(''symbol'', VStr ''BTCUSDT''), (''side'', VStr ''BUY''), (''type'', VStr ''MARKET''),
              (''quantity'', VFloat (Finite 0.01)), (''timeInForce'', VStr ''GTC'')]"
  have v: "validate_and_parse_args ?c = ([], Inr ?a)"
    by (simp add: validate_and_parse_args_def parse_args_def cli_of_def)
  have u: "upper ''BTCUSDT'' = ''BTCUSDT''"
    by (simp add: upper_def upper_char_def is_lower_def)
  have i: "issued_orders (fst (place_order \<lparr>bot_client = cl\<rparr> (upper (args_symbol ?a))
             (upper (args_side ?a)) (upper (args_type ?a)) (args_qty ?a) (args_price ?a))) = [?ps]"
    for cl
    by (simp add: place_order_issued u upper_choices)
  have "snd (main (world_with (client_returning (Inl e))) ?c)
          = (case e of OtherException text \<Rightarrow> 1 | _ \<Rightarrow> 0)" for e
    using exchange_errors_caught_others_propagate
            [of ?c "[]" ?a "world_with (client_returning (Inl e))" "''k3y''" "''s3cret''"
                "client_returning (Inl e)" ?ps e, OF v _ _ _ _ _ _ i]
    by (cases e) (simp_all add: world_with_def client_returning_def)
  then show ?thesis by simp
qed

section \<open>Validation of the command line\<close>

text \<open>
  C4, as the spec states it, fails: a command line with \<^verbatim>\<open>qty\<close> equal to \<open>-1\<close> and a
  type that is not one of the parser's choices is ended by the parser with status 2,
  not with status 1.
\<close>

theorem nonpositive_quantity_can_exit_2:
  "arg_qty (cli_of ''BTCUSDT'' ''BUY'' ''STOP'' (Finite (- 1)) None) = Some (Num (Finite (- 1)))
   \<and> le_zero (Finite (- 1))
   \<and> main (world_with (client_returning (Inr example_response)))
          (cli_of ''BTCUSDT'' ''BUY'' ''STOP'' (Finite (- 1)) None) = ([], 2)
   \<and> snd (main (world_with (client_returning (Inr example_response)))
          (cli_of ''BTCUSDT'' ''BUY'' ''STOP'' (Finite (- 1)) None)) \<noteq> 1"
  by (simp add: main_def validate_and_parse_args_def parse_args_def cli_of_def)

text \<open>
  C4, amended. For every command line whose \<^verbatim>\<open>qty\<close> is a number \<open>\<le> 0\<close>, in every world:
  when the parser accepts the command line, the process logs the quantity error and
  exits with status 1; when the parser rejects it, the process exits with status 2; in
  both cases the trace has no client construction, no ping and no order call.
\<close>

theorem nonpositive_quantity_stops_before_exchange:
  assumes "arg_qty c = Some (Num q)" and "le_zero q"
  shows "(\<forall>a. parse_args c = Inr a \<longrightarrow>
            main w c = ([Log ERROR [S ''Quantity must be greater than zero.'']], 1))
       \<and> (\<forall>n. parse_args c = Inl n \<longrightarrow> main w c = ([], 2))
       \<and> exchange_events (fst (main w c)) = []"
proof -
  have accepted: "main w c = ([Log ERROR [S ''Quantity must be greater than zero.'']], 1)"
    if p: "parse_args c = Inr a" for a
  proof -
    have "args_qty a = q" using parse_args_Inr(6) [OF p] assms(1) by simp
    with assms(2) p have "validate_and_parse_args c =
          ([Log ERROR [S ''Quantity must be greater than zero.'']], Inl 1)"
      by (simp add: validate_and_parse_args_def)
    then show ?thesis by (rule validate_exit_main)
  qed
  have rejected: "main w c = ([], 2)" if "parse_args c = Inl n" for n
    using that by (rule parser_exit_main)
  have "exchange_events (fst (main w c)) = []"
  proof (cases "parse_args c")
    case (Inl n)
    then show ?thesis by (simp add: rejected exchange_events_def)
  next
    case (Inr a)
    then show ?thesis by (simp add: accepted exchange_events_def)
  qed
  with accepted rejected show ?thesis by blast
qed

theorem nonpositive_quantity_stops_before_exchange_witness:
  "parse_args (cli_of ''BTCUSDT'' ''BUY'' ''MARKET'' (Finite (- 1)) None)
     = Inr \<lparr>args_symbol = ''BTCUSDT'', args_side = ''BUY'', args_type = ''MARKET'',
            args_qty = Finite (- 1), args_price = None\<rparr>
   \<and> main (world_with (client_returning (Inr example_response)))
          (cli_of ''BTCUSDT'' ''BUY'' ''MARKET'' (Finite (- 1)) None)
     = ([Log ERROR [S ''Quantity must be greater than zero.'']], 1)
   \<and> exchange_events (fst (main (world_with (client_returning (Inr example_response)))
          (cli_of ''BTCUSDT'' ''BUY'' ''MARKET'' (Finite (- 1)) None))) = []"
proof -
  let ?c = "cli_of ''BTCUSDT'' ''BUY'' ''MARKET'' (Finite (- 1)) None"
  have p: "parse_args ?c
     = Inr \<lparr>args_symbol = ''BTCUSDT'', args_side = ''BUY'', args_type = ''MARKET'',
            args_qty = Finite (- 1), args_price = None\<rparr>"
    by (simp add: parse_args_def cli_of_def)
  have q: "arg_qty ?c = Some (Num (Finite (- 1)))" by (simp add: cli_of_def)
  have l: "le_zero (Finite (- 1))" by simp
  show ?thesis
    using p nonpositive_quantity_stops_before_exchange
              [OF q l, of "world_with (client_returning (Inr example_response))"]
    by (simp add: exchange_events_def)
qed

text \<open>
  C5, as the spec states it, fails: a LIMIT command line without a price whose \<^verbatim>\<open>qty\<close>
  is not a number is ended by the parser with status 2, not with status 1.
\<close>

theorem limit_without_price_can_exit_2:
  "arg_type \<lparr>arg_symbol = Some ''BTCUSDT'', arg_side = Some ''BUY'', arg_type = Some ''LIMIT'',
             arg_qty = Some NotANumber, arg_price = None\<rparr> = Some ''LIMIT''
   \<and> arg_price \<lparr>arg_symbol = Some ''BTCUSDT'', arg_side = Some ''BUY'', arg_type = Some ''LIMIT'',
             arg_qty = Some NotANumber, arg_price = None\<rparr> = None
   \<and> main (world_with (client_returning (Inr example_response)))
          \<lparr>arg_symbol = Some ''BTCUSDT'', arg_side = Some ''BUY'', arg_type = Some ''LIMIT'',
           arg_qty = Some NotANumber, arg_price = None\<rparr> = ([], 2)
   \<and> snd (main (world_with (client_returning (Inr example_response)))
          \<lparr>arg_symbol = Some ''BTCUSDT'', arg_side = Some ''BUY'', arg_type = Some ''LIMIT'',
           arg_qty = Some NotANumber, arg_price = None\<rparr>) \<noteq> 1"
  by (simp add: main_def validate_and_parse_args_def parse_args_def)

text \<open>
  C5, amended. For every command line of type LIMIT whose price is absent or a number
  \<open>\<le> 0\<close>, in every world: when the parser accepts the command line, the process exits
  with status 1 after one error log (the quantity error when the quantity is \<open>\<le> 0\<close>
  too, the price error otherwise); when the parser rejects it, the process exits with
  status 2; in both cases the trace has no order call and no other exchange event.
\<close>

theorem limit_without_positive_price_stops_before_submission:
  assumes "arg_type c = Some ''LIMIT''"
      and "arg_price c = None \<or> (\<exists>p. arg_price c = Some (Num p) \<and> le_zero p)"
  shows "(\<forall>a. parse_args c = Inr a \<longrightarrow>
            main w c =
              ([Log ERROR [S (if le_zero (args_qty a) then ''Quantity must be greater than zero.''
                              else ''LIMIT orders require a positive --price.'')]], 1))
       \<and> (\<forall>n. parse_args c = Inl n \<longrightarrow> main w c = ([], 2))
       \<and> issued_orders (fst (main w c)) = []
       \<and> exchange_events (fst (main w c)) = []"
proof -
  have accepted: "main w c =
              ([Log ERROR [S (if le_zero (args_qty a) then ''Quantity must be greater than zero.''
                              else ''LIMIT orders require a positive --price.'')]], 1)"
    if p: "parse_args c = Inr a" for a
  proof -
    have ty: "args_type a = ''LIMIT''" using parse_args_Inr(4) [OF p] assms(1) by simp
    have pr: "args_price a = None \<or> (\<exists>p. args_price a = Some p \<and> le_zero p)"
      using parse_args_Inr(7) [OF p] assms(2) by (cases "args_price a") auto
    have "validate_and_parse_args c =
          ([Log ERROR [S (if le_zero (args_qty a) then ''Quantity must be greater than zero.''
                          else ''LIMIT orders require a positive --price.'')]], Inl 1)"
      using p ty pr by (auto simp add: validate_and_parse_args_def)
    then show ?thesis by (rule validate_exit_main)
  qed
  have rejected: "main w c = ([], 2)" if "parse_args c = Inl n" for n
    using that by (rule parser_exit_main)
  have "issued_orders (fst (main w c)) = [] \<and> exchange_events (fst (main w c)) = []"
  proof (cases "parse_args c")
    case (Inl n)
    then show ?thesis by (simp add: rejected exchange_events_def)
  next
    case (Inr a)
    then show ?thesis by (simp add: accepted exchange_events_def)
  qed
  with accepted rejected show ?thesis by blast
qed

theorem limit_without_positive_price_stops_before_submission_witness:
  "main (world_with (client_returning (Inr example_response)))
        (cli_of ''BTCUSDT'' ''BUY'' ''LIMIT'' (Finite 1) None)
     = ([Log ERROR [S ''LIMIT orders require a positive --price.'']], 1)
   \<and> main (world_with (client_returning (Inr example_response)))
          (cli_of ''BTCUSDT'' ''BUY'' ''LIMIT'' (Finite 1) (Some (Finite 0)))
     = ([Log ERROR [S ''LIMIT orders require a positive --price.'']], 1)"
proof -
  let ?w = "world_with (client_returning (Inr example_response))"
  let ?c1 = "cli_of ''BTCUSDT'' ''BUY'' ''LIMIT'' (Finite 1) None"
  let ?c2 = "cli_of ''BTCUSDT'' ''BUY'' ''LIMIT'' (Finite 1) (Some (Finite 0))"
  have p1: "parse_args ?c1
     = Inr \<lparr>args_symbol = ''BTCUSDT'', args_side = ''BUY'', args_type = ''LIMIT'',
            args_qty = Finite 1, args_price = None\<rparr>"
    by (simp add: parse_args_def cli_of_def)
  have p2: "parse_args ?c2
     = Inr \<lparr>args_symbol = ''BTCUSDT'', args_side = ''BUY'', args_type = ''LIMIT'',
            args_qty = Finite 1, args_price = Some (Finite 0)\<rparr>"
    by (simp add: parse_args_def cli_of_def)
  have t1: "arg_type ?c1 = Some ''LIMIT''" and t2: "arg_type ?c2 = Some ''LIMIT''"
    by (simp_all add: cli_of_def)
  have h1: "arg_price ?c1 = None \<or> (\<exists>p. arg_price ?c1 = Some (Num p) \<and> le_zero p)"
    by (simp add: cli_of_def)
  have h2: "arg_price ?c2 = None \<or> (\<exists>p. arg_price ?c2 = Some (Num p) \<and> le_zero p)"
    by (simp add: cli_of_def)
  show ?thesis
    using limit_without_positive_price_stops_before_submission [OF t1 h1, of ?w]
          limit_without_positive_price_stops_before_submission [OF t2 h2, of ?w]
    by (simp add: p1 p2)
qed

section \<open>Credentials\<close>

text \<open>
  C9. When \<^verbatim>\<open>API_KEY\<close> or \<^verbatim>\<open>API_SECRET\<close> is set to the empty string, the run is the same,
  trace and exit status, as the run in which that variable is not set. When the command
  line passes the validation, that run is: the error log, the message to the user, exit
  status 1, and nothing else, so no client is constructed.
\<close>

theorem empty_credential_is_absent:
  assumes "getenv w ''API_KEY'' = Some [] \<or> getenv w ''API_SECRET'' = Some []"
  shows "(getenv w ''API_KEY'' = Some [] \<longrightarrow>
            main w c = main (w\<lparr>getenv := (getenv w)(''API_KEY'' := None)\<rparr>) c)
       \<and> (getenv w ''API_SECRET'' = Some [] \<longrightarrow>
            main w c = main (w\<lparr>getenv := (getenv w)(''API_SECRET'' := None)\<rparr>) c)
       \<and> (\<forall>evs a. validate_and_parse_args c = (evs, Inr a) \<longrightarrow>
            main w c = ([Log ERROR [S ''API keys not loaded. Check your .env file.''],
                         Print [S ''Error: API_KEY or API_SECRET not found.'']], 1))"
  using assms
  by (auto simp add: main_def validate_Inr(1) split: prod.splits sum.splits option.splits)

theorem empty_credential_is_absent_witness:
  "main (world_with (client_returning (Inr example_response))\<lparr>getenv := (getenv (world_with (client_returning (Inr example_response))))(''API_SECRET'' := Some [])\<rparr>)
        (cli_of ''BTCUSDT'' ''BUY'' ''MARKET'' (Finite 1) None)
     = ([Log ERROR [S ''API keys not loaded. Check your .env file.''],
         Print [S ''Error: API_KEY or API_SECRET not found.'']], 1)"
proof -
  let ?w = "world_with (client_returning (Inr example_response))\<lparr>getenv := (getenv (world_with (client_returning (Inr example_response))))(''API_SECRET'' := Some [])\<rparr>"
  let ?c = "cli_of ''BTCUSDT'' ''BUY'' ''MARKET'' (Finite 1) None"
  have h: "getenv ?w ''API_KEY'' = Some [] \<or> getenv ?w ''API_SECRET'' = Some []"
    by simp
  have v: "validate_and_parse_args ?c =
             ([], Inr \<lparr>args_symbol = ''BTCUSDT'', args_side = ''BUY'', args_type = ''MARKET'',
                       args_qty = Finite 1, args_price = None\<rparr>)"
    by (simp add: validate_and_parse_args_def parse_args_def cli_of_def)
  show ?thesis
    using empty_credential_is_absent [OF h, of ?c] v by blast
qed

section \<open>What the parser rejects\<close>

text \<open>
  C7, as the spec states it, fails: a command line without \<^verbatim>\<open>--symbol\<close> ends the process
  with status 2, the status of \<^verbatim>\<open>parser.error\<close>, not with status 1.
\<close>

theorem missing_flag_does_not_exit_1:
  "snd (main (world_with (client_returning (Inr example_response)))
          \<lparr>arg_symbol = None, arg_side = Some ''BUY'', arg_type = Some ''MARKET'',
           arg_qty = Some (Num (Finite 1)), arg_price = None\<rparr>) = 2
   \<and> snd (main (world_with (client_returning (Inr example_response)))
          \<lparr>arg_symbol = None, arg_side = Some ''BUY'', arg_type = Some ''MARKET'',
           arg_qty = Some (Num (Finite 1)), arg_price = None\<rparr>) \<noteq> 1"
  by (simp add: main_def validate_and_parse_args_def parse_args_def)

text \<open>
  C7, amended. For every command line with a required flag missing, a side other than
  BUY and SELL, a type other than MARKET and LIMIT, or a \<^verbatim>\<open>qty\<close> or \<^verbatim>\<open>price\<close> that is
  not a number, in every world, the parser ends the process with status 2, with nothing
  logged and no client constructed.
\<close>

theorem parser_rejection_exits_2:
  assumes "arg_symbol c = None \<or> arg_side c = None \<or> arg_type c = None \<or> arg_qty c = None
           \<or> (\<exists>sd. arg_side c = Some sd \<and> sd \<noteq> ''BUY'' \<and> sd \<noteq> ''SELL'')
           \<or> (\<exists>ty. arg_type c = Some ty \<and> ty \<noteq> ''MARKET'' \<and> ty \<noteq> ''LIMIT'')
           \<or> arg_qty c = Some NotANumber \<or> arg_price c = Some NotANumber"
  shows "main w c = ([], 2)"
proof -
  have "parse_args c = Inl 2"
    using assms
    by (auto simp add: parse_args_def split: option.splits float_arg.splits)
  then have "validate_and_parse_args c = ([], Inl 2)"
    by (simp add: validate_and_parse_args_def)
  then show ?thesis by (rule validate_exit_main)
qed

theorem parser_rejection_exits_2_witness:
  "main (world_with (client_returning (Inr example_response)))
        (cli_of ''BTCUSDT'' ''HOLD'' ''MARKET'' (Finite 1) None) = ([], 2)"
  using parser_rejection_exits_2
          [of "cli_of ''BTCUSDT'' ''HOLD'' ''MARKET'' (Finite 1) None"
              "world_with (client_returning (Inr example_response))"]
  by (simp add: cli_of_def)

section \<open>Casing of symbol and side\<close>

text \<open>
  C6, as the spec states it, fails for the side: with \<^verbatim>\<open>--side buy\<close> the parser compares
  the text with its choices BUY and SELL, rejects it and ends the process with status
  2; no order is submitted, so no upper-cased side reaches the wire.
\<close>

theorem lower_case_side_is_not_submitted:
  "main (world_with (client_returning (Inr example_response)))
        (cli_of ''btcusdt'' ''buy'' ''MARKET'' (Finite 1) None) = ([], 2)
   \<and> issued_orders (fst (main (world_with (client_returning (Inr example_response)))
                           (cli_of ''btcusdt'' ''buy'' ''MARKET'' (Finite 1) None))) = []"
  by (simp add: main_def validate_and_parse_args_def parse_args_def cli_of_def)

text \<open>
  C6, amended. For every command line with an ASCII symbol \<open>sy\<close>, in any casing, and
  side \<open>sd\<close>: when \<open>sd\<close> is not written exactly BUY or SELL the parser ends the process
  with status 2; and every order the run submits carries the upper-cased symbol, which
  has no lower-case letter left, and the side \<open>sd\<close> itself, which is BUY or SELL.
\<close>

theorem submitted_symbol_and_side_are_upper_case:
  assumes "arg_symbol c = Some sy" and "is_ascii sy" and "arg_side c = Some sd"
  shows "(sd \<noteq> ''BUY'' \<and> sd \<noteq> ''SELL'' \<longrightarrow> main w c = ([], 2))
       \<and> (\<forall>ps \<in> set (issued_orders (fst (main w c))).
            map_of ps ''symbol'' = Some (VStr (upper sy))
            \<and> (\<forall>ch \<in> set (upper sy). \<not> is_lower ch)
            \<and> map_of ps ''side'' = Some (VStr sd)
            \<and> (sd = ''BUY'' \<or> sd = ''SELL''))"
proof (intro conjI impI ballI)
  assume "sd \<noteq> ''BUY'' \<and> sd \<noteq> ''SELL''"
  with assms(3) have "parse_args c = Inl 2"
    by (auto simp add: parse_args_def split: option.splits)
  then have "validate_and_parse_args c = ([], Inl 2)"
    by (simp add: validate_and_parse_args_def)
  then show "main w c = ([], 2)" by (rule validate_exit_main)
next
  fix ps assume "ps \<in> set (issued_orders (fst (main w c)))"
  then obtain a b where p: "parse_args c = Inr a"
    and i: "ps \<in> set (issued_orders (fst (place_order b (upper (args_symbol a))
                         (upper (args_side a)) (upper (args_type a)) (args_qty a) (args_price a))))"
    using main_issued by blast
  have sy: "args_symbol a = sy" and sd: "args_side a = sd"
    using parse_args_Inr(1,2) [OF p] assms by simp_all
  have ch: "sd = ''BUY'' \<or> sd = ''SELL''"
    using parse_args_Inr(3) [OF p] sd by simp
  then have up: "upper sd = sd" by (auto simp add: upper_choices)
  show "map_of ps ''symbol'' = Some (VStr (upper sy))"
    using i by (auto simp add: place_order_issued sy split: if_splits option.splits)
  show "map_of ps ''side'' = Some (VStr sd)"
    using i by (auto simp add: place_order_issued sd up split: if_splits option.splits)
  show "sd = ''BUY'' \<or> sd = ''SELL''" by (rule ch)
next
  fix ps ch assume "ch \<in> set (upper sy)"
  then show "\<not> is_lower ch"
    by (auto simp add: upper_def not_lower_upper_char)
qed

theorem submitted_symbol_and_side_are_upper_case_witness:
  "issued_orders (fst (main (world_with (client_returning (Inr example_response)))
                         (cli_of ''btcusdt'' ''SELL'' ''MARKET'' (Finite 1) None)))
     = [[(''symbol'', VStr ''BTCUSDT''), (''side'', VStr ''SELL''), (''type'', VStr ''MARKET''),
         (''quantity'', VFloat (Finite 1)), (''timeInForce'', VStr ''GTC'')]]
   \<and> map_of [(''symbol'', VStr ''BTCUSDT''), (''side'', VStr ''SELL''), (''type'', VStr ''MARKET''),
              (''quantity'', VFloat (Finite 1)), (''timeInForce'', VStr ''GTC'')] ''symbol''
       = Some (VStr (upper ''btcusdt''))
   \<and> list_all (\<lambda>ch. \<not> is_lower ch) (upper ''btcusdt'')"
proof -
  let ?w = "world_with (client_returning (Inr example_response))"
  let ?c = "cli_of ''btcusdt'' ''SELL'' ''MARKET'' (Finite 1) None"
  have v: "validate_and_parse_args ?c =
             ([], Inr \<lparr>args_symbol = ''btcusdt'', args_side = ''SELL'', args_type = ''MARKET'',
                       args_qty = Finite 1, args_price = None\<rparr>)"
    by (simp add: validate_and_parse_args_def parse_args_def cli_of_def)
  have m: "issued_orders (fst (main ?w ?c))
     = [[(''symbol'', VStr ''BTCUSDT''), (''side'', VStr ''SELL''), (''type'', VStr ''MARKET''),
         (''quantity'', VFloat (Finite 1)), (''timeInForce'', VStr ''GTC'')]]"
    by (simp add: main_def v world_with_def client_returning_def BasicBot_init_def
          place_order_def ORDER_TYPE_LIMIT_def TIME_IN_FORCE_GTC_def Let_def
          upper_btcusdt upper_choices)
  have s: "arg_symbol ?c = Some ''btcusdt''" and d: "arg_side ?c = Some ''SELL''"
    by (simp_all add: cli_of_def)
  have a: "is_ascii ''btcusdt''"
    by (simp add: is_ascii_def)
  show ?thesis
    using m submitted_symbol_and_side_are_upper_case [OF s a d, of ?w]
    by (simp add: list_all_iff)
qed

end
